theory Spec2Isabelle
  imports Main "HOL-Library.Word"
begin

section \<open>Bytes, exceptions and big-endian addresses\<close>

text \<open>
  A Python \<^verbatim>\<open>bytes\<close> or \<^verbatim>\<open>bytearray\<close> value is a list of 8-bit words. An address is
  such a list, read big-endian; its width is its length.

  A raised exception is a value of \<open>pyexn\<close>, named after its Python class and
  carrying its message. \<open>I2cNackError\<close> and \<open>I2cIOError\<close> are the exceptions of the
  pyftdi port; the others are raised by the utility itself or by the built-ins it calls.
  Messages that embed the \<^verbatim>\<open>repr\<close> of the offending value are kept without that tail.
\<close>

type_synonym byte = "8 word"
type_synonym bytes = "byte list"

datatype pyexn =
    ValueError string
  | TypeError string
  | OverflowError string
  | KeyError string
  | I2cNackError string
  | I2cIOError string

text \<open>\<^verbatim>\<open>int.from_bytes(b, "big")\<close>.\<close>

definition from_bytes :: "bytes \<Rightarrow> nat" where
  "from_bytes bs = foldl (\<lambda>acc b. acc * 256 + unat b) 0 bs"

text \<open>The \<open>w\<close> low-order base-256 digits of \<open>v\<close>, most significant first.\<close>

fun be_encode :: "nat \<Rightarrow> nat \<Rightarrow> bytes" where
  "be_encode 0 v = []"
| "be_encode (Suc w) v = be_encode w (v div 256) @ [of_nat (v mod 256)]"

text \<open>
  \<^verbatim>\<open>v.to_bytes(w, "big")\<close>: Python raises OverflowError for a negative \<open>v\<close> and for a
  \<open>v\<close> that does not fit into \<open>w\<close> bytes; it never truncates.
\<close>

definition to_bytes :: "int \<Rightarrow> nat \<Rightarrow> pyexn + bytes" where
  "to_bytes v w =
     (if v < 0 then Inl (OverflowError ''cannot convert negative int to unsigned'')
      else if 256 ^ w \<le> v then Inl (OverflowError ''int too big to convert'')
      else Inr (be_encode w (nat v)))"

section \<open>The transport port\<close>

text \<open>
  The I2C port is an external collaborator with two capabilities,
  \<^verbatim>\<open>write(bytes)\<close> and \<^verbatim>\<open>read(n)\<close>, each of which may raise. A port is modelled by
  its behaviour: what a call answers, given every call made to it so far. The state that
  the program threads is that history, the trace of port calls, to which every call is
  appended whether it succeeds or raises.
\<close>

datatype event = PortWrite bytes | PortRead int

type_synonym trace = "event list"

record port =
  port_write :: "trace \<Rightarrow> bytes \<Rightarrow> pyexn option"
  port_read :: "trace \<Rightarrow> int \<Rightarrow> pyexn + bytes"

definition do_write :: "port \<Rightarrow> bytes \<Rightarrow> trace \<Rightarrow> (pyexn + unit) \<times> trace" where
  "do_write p bs tr =
     (case port_write p tr bs of
        Some e \<Rightarrow> (Inl e, tr @ [PortWrite bs])
      | None \<Rightarrow> (Inr (), tr @ [PortWrite bs]))"

definition do_read :: "port \<Rightarrow> int \<Rightarrow> trace \<Rightarrow> (pyexn + bytes) \<times> trace" where
  "do_read p n tr =
     (case port_read p tr n of
        Inl e \<Rightarrow> (Inl e, tr @ [PortRead n])
      | Inr bs \<Rightarrow> (Inr bs, tr @ [PortRead n]))"

section \<open>The three transactions\<close>

text \<open>\<^verbatim>\<open>command or b""\<close>: an absent command and an empty one both contribute no byte.\<close>

definition cmd_bytes :: "bytes option \<Rightarrow> bytes" where
  "cmd_bytes command = (case command of None \<Rightarrow> [] | Some c \<Rightarrow> c)"

text \<open>
  \<^verbatim>\<open>eeprom_page_write\<close>: the write-enable sequence when its flag is set, then the
  frame, then the next address. The next address is computed after the port calls, so an
  OverflowError is raised with both transactions already on the bus.
\<close>

definition eeprom_page_write ::
  "port \<Rightarrow> bytes \<Rightarrow> bytes \<Rightarrow> bytes option \<Rightarrow> bool \<times> bytes \<Rightarrow> trace
     \<Rightarrow> (pyexn + bytes \<times> bytes) \<times> trace" where
  "eeprom_page_write eeprom address data command write_enable tr =
     (case (if fst write_enable then do_write eeprom (snd write_enable) tr else (Inr (), tr)) of
        (Inl e, tr1) \<Rightarrow> (Inl e, tr1)
      | (Inr _, tr1) \<Rightarrow>
          (case do_write eeprom (cmd_bytes command @ address @ data) tr1 of
             (Inl e, tr2) \<Rightarrow> (Inl e, tr2)
           | (Inr _, tr2) \<Rightarrow>
               (case to_bytes (int (from_bytes address) + int (length data)) (length address) of
                  Inl e \<Rightarrow> (Inl e, tr2)
                | Inr next_address \<Rightarrow> (Inr (data, next_address), tr2))))"

text \<open>\<^verbatim>\<open>eeprom_write\<close>: one frame, no write-enable; the next address is \<open>address + 1\<close>
  whatever the length of \<open>data\<close>.\<close>

definition eeprom_write ::
  "port \<Rightarrow> bytes \<Rightarrow> bytes \<Rightarrow> bytes option \<Rightarrow> trace \<Rightarrow> (pyexn + bytes \<times> bytes) \<times> trace" where
  "eeprom_write eeprom address data command tr =
     (case do_write eeprom (cmd_bytes command @ address @ data) tr of
        (Inl e, tr1) \<Rightarrow> (Inl e, tr1)
      | (Inr _, tr1) \<Rightarrow>
          (case to_bytes (int (from_bytes address) + 1) (length address) of
             Inl e \<Rightarrow> (Inl e, tr1)
           | Inr next_address \<Rightarrow> (Inr (data, next_address), tr1)))"

text \<open>\<^verbatim>\<open>eeprom_read\<close>: the address frame is written, then \<open>n\<close> bytes are read, then the
  next address is computed.\<close>

definition eeprom_read ::
  "port \<Rightarrow> bytes \<Rightarrow> int \<Rightarrow> bytes option \<Rightarrow> trace \<Rightarrow> (pyexn + bytes \<times> bytes) \<times> trace" where
  "eeprom_read eeprom address n command tr =
     (case do_write eeprom (cmd_bytes command @ address) tr of
        (Inl e, tr1) \<Rightarrow> (Inl e, tr1)
      | (Inr _, tr1) \<Rightarrow>
          (case do_read eeprom n tr1 of
             (Inl e, tr2) \<Rightarrow> (Inl e, tr2)
           | (Inr bs, tr2) \<Rightarrow>
               (case to_bytes (int (from_bytes address) + n) (length address) of
                  Inl e \<Rightarrow> (Inl e, tr2)
                | Inr next_address \<Rightarrow> (Inr (bs, next_address), tr2))))"

text \<open>Two ports to run the transactions on: one that acknowledges every call and reads
  zeros, one that answers every call with a no-acknowledge error.\<close>

definition ack_port :: port where
  "ack_port = \<lparr>port_write = (\<lambda>tr bs. None), port_read = (\<lambda>tr n. Inr (replicate (nat n) 0))\<rparr>"

definition nack_port :: port where
  "nack_port = \<lparr>port_write = (\<lambda>tr bs. Some (I2cNackError ''NACK from slave'')),
                 port_read = (\<lambda>tr n. Inl (I2cNackError ''NACK from slave''))\<rparr>"

text \<open>A port whose reads fail, and one that accepts the first write only.\<close>

definition read_nack_port :: port where
  "read_nack_port = \<lparr>port_write = (\<lambda>tr bs. None),
                      port_read = (\<lambda>tr n. Inl (I2cNackError ''NACK from slave''))\<rparr>"

definition frame_nack_port :: port where
  "frame_nack_port =
     \<lparr>port_write = (\<lambda>tr bs. if tr = [] then None else Some (I2cNackError ''NACK from slave'')),
      port_read = (\<lambda>tr n. Inl (I2cNackError ''NACK from slave''))\<rparr>"


text \<open>The events of the write-enable step of a page write.\<close>

definition we_events :: "bool \<times> bytes \<Rightarrow> trace" where
  "we_events write_enable = (if fst write_enable then [PortWrite (snd write_enable)] else [])"

section \<open>Facts about big-endian encoding\<close>

lemma from_bytes_Nil: "from_bytes [] = 0"
  by (simp add: from_bytes_def)

lemma from_bytes_snoc: "from_bytes (bs @ [b]) = from_bytes bs * 256 + unat b"
  by (simp add: from_bytes_def)

lemma length_be_encode: "length (be_encode w v) = w"
  by (induction w arbitrary: v) simp_all

lemma unat_byte_of_nat: "unat (of_nat (v mod 256) :: byte) = v mod 256"
  by (simp add: unat_of_nat)

lemma from_bytes_be_encode: "from_bytes (be_encode w v) = v mod 256 ^ w"
proof (induction w arbitrary: v)
  case 0
  show ?case by (simp add: from_bytes_Nil)
next
  case (Suc w)
  have "from_bytes (be_encode (Suc w) v) = (v div 256) mod 256 ^ w * 256 + v mod 256"
    by (simp add: from_bytes_snoc Suc.IH unat_byte_of_nat)
  also have "\<dots> = v mod (256 * 256 ^ w)"
    by (simp add: mod_mult2_eq add.commute mult.commute)
  finally show ?case by simp
qed

lemma from_bytes_bound: "from_bytes bs < 256 ^ length bs"
proof (induction bs rule: rev_induct)
  case Nil
  show ?case by (simp add: from_bytes_Nil)
next
  case (snoc b bs)
  have "unat b < 256"
    using unsigned_less [of b] by simp
  with snoc show ?case
    by (simp add: from_bytes_snoc)
qed

lemma to_bytes_Inr:
  "to_bytes v w = Inr a \<longleftrightarrow> 0 \<le> v \<and> v < 256 ^ w \<and> a = be_encode w (nat v)"
  by (auto simp: to_bytes_def)

lemma to_bytes_Inr_props:
  assumes "to_bytes v w = Inr a"
  shows "length a = w" and "int (from_bytes a) = v"
proof -
  from assms have v: "0 \<le> v" "v < 256 ^ w" and a: "a = be_encode w (nat v)"
    by (simp_all add: to_bytes_Inr)
  show "length a = w"
    by (simp add: a length_be_encode)
  from v have "nat v < 256 ^ w"
    by (metis nat_less_iff of_nat_numeral of_nat_power)
  then show "int (from_bytes a) = v"
    using v by (simp add: a from_bytes_be_encode)
qed

lemma to_bytes_fits:
  "0 \<le> v \<Longrightarrow> v < 256 ^ w \<Longrightarrow> to_bytes v w = Inr (be_encode w (nat v))"
  by (simp add: to_bytes_def)

lemma to_bytes_too_big:
  "256 ^ w \<le> v \<Longrightarrow> to_bytes v w = Inl (OverflowError ''int too big to convert'')"
proof -
  assume a: "256 ^ w \<le> v"
  have "(0::int) \<le> 256 ^ w" by simp
  with a have "\<not> v < 0" by linarith
  with a show ?thesis by (simp add: to_bytes_def)
qed

lemma to_bytes_nat_sum:
  "to_bytes (int a + int n) w =
     (if a + n < 256 ^ w then Inr (be_encode w (a + n))
      else Inl (OverflowError ''int too big to convert''))"
proof (cases "a + n < 256 ^ w")
  case True
  then have "int a + int n < 256 ^ w"
    by (metis of_nat_add of_nat_less_iff of_nat_numeral of_nat_power)
  then show ?thesis using True
    by (simp add: to_bytes_fits nat_add_distrib)
next
  case False
  then have "256 ^ w \<le> int a + int n"
    by (metis linorder_not_less of_nat_add of_nat_le_iff of_nat_numeral of_nat_power)
  then show ?thesis using False
    by (simp add: to_bytes_too_big)
qed

lemma eeprom_page_write_Inr:
  assumes "eeprom_page_write eeprom address data command write_enable tr = (Inr (d, a), tr')"
  shows "d = data \<and> to_bytes (int (from_bytes address) + int (length data)) (length address) = Inr a"
  using assms
  by (auto simp: eeprom_page_write_def do_write_def split: if_splits option.splits sum.splits)

lemma eeprom_write_Inr:
  assumes "eeprom_write eeprom address data command tr = (Inr (d, a), tr')"
  shows "d = data \<and> to_bytes (int (from_bytes address) + 1) (length address) = Inr a"
  using assms
  by (auto simp: eeprom_write_def do_write_def split: if_splits option.splits sum.splits)

lemma eeprom_read_Inr:
  assumes "eeprom_read eeprom address n command tr = (Inr (d, a), tr')"
  shows "port_read eeprom (tr @ [PortWrite (cmd_bytes command @ address)]) n = Inr d \<and>
         to_bytes (int (from_bytes address) + n) (length address) = Inr a"
  using assms
  by (auto simp: eeprom_read_def do_write_def do_read_def split: if_splits option.splits sum.splits)

lemma eeprom_write_ok:
  assumes "port_write eeprom tr (cmd_bytes command @ address @ data) = None"
  shows "eeprom_write eeprom address data command tr =
     (case to_bytes (int (from_bytes address) + 1) (length address) of
        Inl e \<Rightarrow> Inl e | Inr a \<Rightarrow> Inr (data, a),
      tr @ [PortWrite (cmd_bytes command @ address @ data)])"
  using assms by (simp add: eeprom_write_def do_write_def split: sum.splits)

lemma eeprom_read_ok:
  assumes "port_write eeprom tr (cmd_bytes command @ address) = None"
    and "port_read eeprom (tr @ [PortWrite (cmd_bytes command @ address)]) n = Inr bs"
  shows "eeprom_read eeprom address n command tr =
     (case to_bytes (int (from_bytes address) + n) (length address) of
        Inl e \<Rightarrow> Inl e | Inr a \<Rightarrow> Inr (bs, a),
      tr @ [PortWrite (cmd_bytes command @ address), PortRead n])"
  using assms by (simp add: eeprom_read_def do_write_def do_read_def split: sum.splits)

lemma eeprom_page_write_ok:
  assumes "fst write_enable \<longrightarrow> port_write eeprom tr (snd write_enable) = None"
    and "port_write eeprom (tr @ we_events write_enable)
           (cmd_bytes command @ address @ data) = None"
  shows "eeprom_page_write eeprom address data command write_enable tr =
     (case to_bytes (int (from_bytes address) + int (length data)) (length address) of
        Inl e \<Rightarrow> Inl e | Inr a \<Rightarrow> Inr (data, a),
      tr @ we_events write_enable @ [PortWrite (cmd_bytes command @ address @ data)])"
  using assms
  by (cases "fst write_enable")
     (simp_all add: eeprom_page_write_def do_write_def we_events_def split: sum.splits)

section \<open>Page write: framing and result\<close>

text \<open>
  Claim C3 says that \<^verbatim>\<open>eeprom_page_write\<close> returns the pair
  \<open>(data, address + len(data))\<close> for every address and data buffer. At the top of the
  address range it does not: with the two-byte address \<open>0xFFFF\<close> and one data byte the
  frame is written and the call then raises OverflowError, since \<open>0x10000\<close> has no
  two-byte encoding.
\<close>

theorem eeprom_page_write_overflow_counterexample:
  "eeprom_page_write ack_port [0xFF, 0xFF] [0x00] None (False, []) [] =
     (Inl (OverflowError ''int too big to convert''), [PortWrite [0xFF, 0xFF, 0x00]])"
  by (simp add: eeprom_page_write_def do_write_def ack_port_def cmd_bytes_def to_bytes_def
      from_bytes_def)

text \<open>
  Claim C3, amended. When the port accepts the writes, \<^verbatim>\<open>eeprom_page_write\<close> appends
  to the trace the write-enable sequence as a transaction of its own exactly when
  write-enable is set, then the frame \<open>[command if present][address][data]\<close> as one
  transaction. It returns \<open>(data, address + len(data))\<close>, the sum encoded in the width
  of \<open>address\<close>, when the sum fits into that width, and raises OverflowError after both
  transactions when it does not.
\<close>

theorem eeprom_page_write_frames:
  assumes we_ok: "fst write_enable \<longrightarrow> port_write eeprom tr (snd write_enable) = None"
    and wr_ok: "port_write eeprom (tr @ we_events write_enable)
                  (cmd_bytes command @ address @ data) = None"
  shows "snd (eeprom_page_write eeprom address data command write_enable tr) =
           tr @ (if fst write_enable then [PortWrite (snd write_enable)] else [])
              @ [PortWrite (cmd_bytes command @ address @ data)]
       \<and> fst (eeprom_page_write eeprom address data command write_enable tr) =
           (if from_bytes address + length data < 256 ^ length address
            then Inr (data, be_encode (length address) (from_bytes address + length data))
            else Inl (OverflowError ''int too big to convert''))
       \<and> (from_bytes address + length data < 256 ^ length address \<longrightarrow>
            from_bytes (be_encode (length address) (from_bytes address + length data)) =
              from_bytes address + length data)"
  using eeprom_page_write_ok [OF we_ok wr_ok]
  by (simp add: to_bytes_nat_sum we_events_def from_bytes_be_encode)

theorem eeprom_page_write_frames_witness:
  "snd (eeprom_page_write ack_port [0x00, 0x20] [0x01, 0x02, 0x03] (Some [0x02]) (True, [0x06]) []) =
     [PortWrite [0x06], PortWrite [0x02, 0x00, 0x20, 0x01, 0x02, 0x03]]
   \<and> fst (eeprom_page_write ack_port [0x00, 0x20] [0x01, 0x02, 0x03] (Some [0x02]) (True, [0x06]) []) =
     Inr ([0x01, 0x02, 0x03], [0x00, 0x23])
   \<and> snd (eeprom_page_write ack_port [0x00, 0x20] [0x01, 0x02, 0x03] None (False, []) []) =
     [PortWrite [0x00, 0x20, 0x01, 0x02, 0x03]]"
proof -
  have w1: "fst (True, [0x06 :: byte]) \<longrightarrow> port_write ack_port [] (snd (True, [0x06])) = None"
    by (simp add: ack_port_def)
  have w2: "port_write ack_port ([] @ we_events (True, [0x06]))
              (cmd_bytes (Some [0x02]) @ [0x00, 0x20] @ [0x01, 0x02, 0x03]) = None"
    by (simp add: ack_port_def)
  have w3: "fst (False, [] :: bytes) \<longrightarrow> port_write ack_port [] (snd (False, [])) = None"
    by (simp add: ack_port_def)
  have w4: "port_write ack_port ([] @ we_events (False, []))
              (cmd_bytes None @ [0x00, 0x20] @ [0x01, 0x02, 0x03]) = None"
    by (simp add: ack_port_def)
  have enc: "be_encode (length [0x00, 0x20 :: byte]) 35 = [0x00, 0x23]"
    by code_simp
  have fb: "from_bytes [0x00, 0x20] = 32"
    by (simp add: from_bytes_def)
  show ?thesis
    using eeprom_page_write_frames [OF w1 w2] eeprom_page_write_frames [OF w3 w4] enc
    by (simp add: cmd_bytes_def fb)
qed

section \<open>The next address keeps the width\<close>

text \<open>
  Claim C5. Whenever \<^verbatim>\<open>eeprom_page_write\<close>, \<^verbatim>\<open>eeprom_write\<close> or
  \<^verbatim>\<open>eeprom_read\<close> returns, the next address has the width of the address passed in and
  its value is exactly \<open>address + n\<close> (\<open>n\<close> the data length, one, and the read count).
  When the sum has no encoding in that width the call does not return: it ends in an
  error, never in a truncated address.
\<close>

theorem next_address_width:
  "(eeprom_page_write eeprom address data command write_enable tr = (Inr (d, a), tr') \<longrightarrow>
      length a = length address \<and> from_bytes a = from_bytes address + length data)
   \<and> (eeprom_write eeprom address data command tr = (Inr (d, a), tr') \<longrightarrow>
      length a = length address \<and> from_bytes a = from_bytes address + 1)
   \<and> (eeprom_read eeprom address n command tr = (Inr (d, a), tr') \<longrightarrow>
      length a = length address \<and> int (from_bytes a) = int (from_bytes address) + n)
   \<and> (256 ^ length address \<le> from_bytes address + length data \<longrightarrow>
      (\<exists>e. fst (eeprom_page_write eeprom address data command write_enable tr) = Inl e))
   \<and> (256 ^ length address \<le> from_bytes address + 1 \<longrightarrow>
      (\<exists>e. fst (eeprom_write eeprom address data command tr) = Inl e))
   \<and> (int (from_bytes address) + n < 0 \<or> 256 ^ length address \<le> int (from_bytes address) + n \<longrightarrow>
      (\<exists>e. fst (eeprom_read eeprom address n command tr) = Inl e))"
proof (intro conjI impI)
  assume r: "eeprom_page_write eeprom address data command write_enable tr = (Inr (d, a), tr')"
  then have tb: "to_bytes (int (from_bytes address) + int (length data)) (length address) = Inr a"
    by (simp add: eeprom_page_write_Inr)
  show "length a = length address"
    using to_bytes_Inr_props(1) [OF tb] .
  show "from_bytes a = from_bytes address + length data"
    using to_bytes_Inr_props(2) [OF tb] by linarith
next
  assume r: "eeprom_write eeprom address data command tr = (Inr (d, a), tr')"
  then have tb: "to_bytes (int (from_bytes address) + 1) (length address) = Inr a"
    by (simp add: eeprom_write_Inr)
  show "length a = length address"
    using to_bytes_Inr_props(1) [OF tb] .
  show "from_bytes a = from_bytes address + 1"
    using to_bytes_Inr_props(2) [OF tb] by linarith
next
  assume r: "eeprom_read eeprom address n command tr = (Inr (d, a), tr')"
  then have tb: "to_bytes (int (from_bytes address) + n) (length address) = Inr a"
    by (simp add: eeprom_read_Inr)
  show "length a = length address"
    using to_bytes_Inr_props(1) [OF tb] .
  show "int (from_bytes a) = int (from_bytes address) + n"
    using to_bytes_Inr_props(2) [OF tb] .
next
  assume big: "256 ^ length address \<le> from_bytes address + length data"
  let ?r = "eeprom_page_write eeprom address data command write_enable tr"
  show "\<exists>e. fst ?r = Inl e"
  proof (cases "fst ?r")
    case (Inl e)
    then show ?thesis by blast
  next
    case (Inr da)
    then have "?r = (Inr (fst da, snd da), snd ?r)"
      by (metis prod.collapse)
    from eeprom_page_write_Inr [OF this]
    have "to_bytes (int (from_bytes address) + int (length data)) (length address) = Inr (snd da)"
      by simp
    with big show ?thesis
      by (simp add: to_bytes_nat_sum)
  qed
next
  assume big: "256 ^ length address \<le> from_bytes address + 1"
  let ?r = "eeprom_write eeprom address data command tr"
  show "\<exists>e. fst ?r = Inl e"
  proof (cases "fst ?r")
    case (Inl e)
    then show ?thesis by blast
  next
    case (Inr da)
    then have "?r = (Inr (fst da, snd da), snd ?r)"
      by (metis prod.collapse)
    from eeprom_write_Inr [OF this]
    have "to_bytes (int (from_bytes address) + 1) (length address) = Inr (snd da)"
      by simp
    with big show ?thesis
      using to_bytes_nat_sum [of "from_bytes address" 1 "length address"] by simp
  qed
next
  assume big: "int (from_bytes address) + n < 0 \<or> 256 ^ length address \<le> int (from_bytes address) + n"
  let ?r = "eeprom_read eeprom address n command tr"
  show "\<exists>e. fst ?r = Inl e"
  proof (cases "fst ?r")
    case (Inl e)
    then show ?thesis by blast
  next
    case (Inr da)
    then have "?r = (Inr (fst da, snd da), snd ?r)"
      by (metis prod.collapse)
    from eeprom_read_Inr [OF this]
    have "to_bytes (int (from_bytes address) + n) (length address) = Inr (snd da)"
      by simp
    with big show ?thesis
      by (auto simp: to_bytes_Inr)
  qed
qed

theorem next_address_width_witness:
  "(length [0x10, 0x00 :: byte] = length [0x0F, 0xE0 :: byte]
     \<and> from_bytes [0x10, 0x00] = from_bytes [0x0F, 0xE0] + length (replicate 32 (0xAA :: byte)))
   \<and> (length [0x01, 0x00 :: byte] = length [0x00, 0xFF :: byte]
     \<and> from_bytes [0x01, 0x00] = from_bytes [0x00, 0xFF] + 1)
   \<and> (length [0x00, 0x03 :: byte] = length [0x00, 0x00 :: byte]
     \<and> int (from_bytes [0x00, 0x03]) = int (from_bytes [0x00, 0x00]) + 3)
   \<and> (\<exists>e. fst (eeprom_page_write ack_port [0xFF, 0xFF] [0x00] None (False, []) []) = Inl e)
   \<and> (\<exists>e. fst (eeprom_write ack_port [0xFF, 0xFF] [0x00] None []) = Inl e)
   \<and> (\<exists>e. fst (eeprom_read ack_port [0x00, 0x00] (- 1) None []) = Inl e)"
proof -
  have pw: "eeprom_page_write ack_port [0x0F, 0xE0] (replicate 32 0xAA) None (False, []) [] =
     (Inr (replicate 32 0xAA, [0x10, 0x00]), [PortWrite ([0x0F, 0xE0] @ replicate 32 0xAA)])"
    by code_simp
  have w: "eeprom_write ack_port [0x00, 0xFF] [0x80] (Some [0x02]) [] =
     (Inr ([0x80], [0x01, 0x00]), [PortWrite [0x02, 0x00, 0xFF, 0x80]])"
    by code_simp
  have r: "eeprom_read ack_port [0x00, 0x00] 3 (Some [0x03]) [] =
     (Inr ([0, 0, 0], [0x00, 0x03]), [PortWrite [0x03, 0x00, 0x00], PortRead 3])"
    by code_simp
  have o1: "256 ^ length [0xFF, 0xFF :: byte] \<le> from_bytes [0xFF, 0xFF] + length [0x00 :: byte]"
    by (simp add: from_bytes_def)
  have o2: "256 ^ length [0xFF, 0xFF :: byte] \<le> from_bytes [0xFF, 0xFF] + 1"
    by (simp add: from_bytes_def)
  have o3: "int (from_bytes [0x00, 0x00]) + (- 1) < 0
              \<or> 256 ^ length [0x00, 0x00 :: byte] \<le> int (from_bytes [0x00, 0x00]) + (- 1)"
    by (simp add: from_bytes_def)
  note c1 = next_address_width [THEN conjunct1, rule_format, OF pw]
  note c2 = next_address_width [THEN conjunct2, THEN conjunct1, rule_format, OF w]
  note c3 = next_address_width [THEN conjunct2, THEN conjunct2, THEN conjunct1, rule_format, OF r]
  note c4 = next_address_width [THEN conjunct2, THEN conjunct2, THEN conjunct2, THEN conjunct1,
      rule_format, OF o1, of ack_port None "(False, [])" "[]"]
  note c5 = next_address_width [THEN conjunct2, THEN conjunct2, THEN conjunct2, THEN conjunct2,
      THEN conjunct1, rule_format, OF o2, of ack_port "[0x00]" None "[]"]
  note c6 = next_address_width [THEN conjunct2, THEN conjunct2, THEN conjunct2, THEN conjunct2,
      THEN conjunct2, rule_format, OF o3, of ack_port None "[]"]
  from c1 c2 c3 c4 c5 c6 show ?thesis
    by blast
qed

section \<open>Port failures\<close>

text \<open>
  Claim C8. None of the three transactions catches anything. When a port call raises
  \<open>e\<close> (pyftdi's no-acknowledge error, say), the transaction ends at once with that same
  \<open>e\<close>: the trace stops at the call that failed, so nothing is retried and no later
  port call is made, and the result is the exception alone, with no data and no next
  address for the caller to take over. This holds at each of the five port calls: the
  frame of \<^verbatim>\<open>eeprom_write\<close>, the write-enable sequence and the frame of
  \<^verbatim>\<open>eeprom_page_write\<close>, the address frame and the read of \<^verbatim>\<open>eeprom_read\<close>.
\<close>

theorem port_failure_propagates:
  "(port_write eeprom tr (cmd_bytes command @ address @ data) = Some e \<longrightarrow>
      eeprom_write eeprom address data command tr =
        (Inl e, tr @ [PortWrite (cmd_bytes command @ address @ data)]))
   \<and> (fst write_enable \<and> port_write eeprom tr (snd write_enable) = Some e \<longrightarrow>
      eeprom_page_write eeprom address data command write_enable tr =
        (Inl e, tr @ [PortWrite (snd write_enable)]))
   \<and> ((fst write_enable \<longrightarrow> port_write eeprom tr (snd write_enable) = None) \<and>
       port_write eeprom (tr @ we_events write_enable) (cmd_bytes command @ address @ data) = Some e \<longrightarrow>
      eeprom_page_write eeprom address data command write_enable tr =
        (Inl e, tr @ we_events write_enable @ [PortWrite (cmd_bytes command @ address @ data)]))
   \<and> (port_write eeprom tr (cmd_bytes command @ address) = Some e \<longrightarrow>
      eeprom_read eeprom address n command tr =
        (Inl e, tr @ [PortWrite (cmd_bytes command @ address)]))
   \<and> (port_write eeprom tr (cmd_bytes command @ address) = None \<and>
       port_read eeprom (tr @ [PortWrite (cmd_bytes command @ address)]) n = Inl e \<longrightarrow>
      eeprom_read eeprom address n command tr =
        (Inl e, tr @ [PortWrite (cmd_bytes command @ address), PortRead n]))"
proof (intro conjI impI)
  assume "port_write eeprom tr (cmd_bytes command @ address @ data) = Some e"
  then show "eeprom_write eeprom address data command tr =
        (Inl e, tr @ [PortWrite (cmd_bytes command @ address @ data)])"
    by (simp add: eeprom_write_def do_write_def)
next
  assume "fst write_enable \<and> port_write eeprom tr (snd write_enable) = Some e"
  then show "eeprom_page_write eeprom address data command write_enable tr =
        (Inl e, tr @ [PortWrite (snd write_enable)])"
    by (simp add: eeprom_page_write_def do_write_def)
next
  assume "(fst write_enable \<longrightarrow> port_write eeprom tr (snd write_enable) = None) \<and>
       port_write eeprom (tr @ we_events write_enable) (cmd_bytes command @ address @ data) = Some e"
  then show "eeprom_page_write eeprom address data command write_enable tr =
        (Inl e, tr @ we_events write_enable @ [PortWrite (cmd_bytes command @ address @ data)])"
    by (cases "fst write_enable") (simp_all add: eeprom_page_write_def do_write_def we_events_def)
next
  assume "port_write eeprom tr (cmd_bytes command @ address) = Some e"
  then show "eeprom_read eeprom address n command tr =
        (Inl e, tr @ [PortWrite (cmd_bytes command @ address)])"
    by (simp add: eeprom_read_def do_write_def)
next
  assume "port_write eeprom tr (cmd_bytes command @ address) = None \<and>
       port_read eeprom (tr @ [PortWrite (cmd_bytes command @ address)]) n = Inl e"
  then show "eeprom_read eeprom address n command tr =
        (Inl e, tr @ [PortWrite (cmd_bytes command @ address), PortRead n])"
    by (simp add: eeprom_read_def do_write_def do_read_def)
qed

theorem port_failure_propagates_witness:
  "eeprom_write nack_port [0x00, 0x00] [0x80] (Some [0x02]) [] =
     (Inl (I2cNackError ''NACK from slave''), [PortWrite [0x02, 0x00, 0x00, 0x80]])
   \<and> eeprom_page_write nack_port [0x00, 0x20] [0x01] (Some [0x02]) (True, [0x06]) [] =
     (Inl (I2cNackError ''NACK from slave''), [PortWrite [0x06]])
   \<and> eeprom_page_write frame_nack_port [0x00, 0x20] [0x01] (Some [0x02]) (True, [0x06]) [] =
     (Inl (I2cNackError ''NACK from slave''), [PortWrite [0x06], PortWrite [0x02, 0x00, 0x20, 0x01]])
   \<and> eeprom_read nack_port [0x00, 0x00] 4 (Some [0x03]) [] =
     (Inl (I2cNackError ''NACK from slave''), [PortWrite [0x03, 0x00, 0x00]])
   \<and> eeprom_read read_nack_port [0x00, 0x00] 4 (Some [0x03]) [] =
     (Inl (I2cNackError ''NACK from slave''), [PortWrite [0x03, 0x00, 0x00], PortRead 4])"
proof -
  let ?e = "I2cNackError ''NACK from slave''"
  have h1: "port_write nack_port [] (cmd_bytes (Some [0x02]) @ [0x00, 0x00] @ [0x80]) = Some ?e"
    by (simp add: nack_port_def)
  have h2: "fst (True, [0x06 :: byte]) \<and> port_write nack_port [] (snd (True, [0x06])) = Some ?e"
    by (simp add: nack_port_def)
  have h3: "(fst (True, [0x06 :: byte]) \<longrightarrow> port_write frame_nack_port [] (snd (True, [0x06])) = None) \<and>
       port_write frame_nack_port ([] @ we_events (True, [0x06]))
         (cmd_bytes (Some [0x02]) @ [0x00, 0x20] @ [0x01]) = Some ?e"
    by (simp add: frame_nack_port_def we_events_def)
  have h4: "port_write nack_port [] (cmd_bytes (Some [0x03]) @ [0x00, 0x00]) = Some ?e"
    by (simp add: nack_port_def)
  have h5: "port_write read_nack_port [] (cmd_bytes (Some [0x03]) @ [0x00, 0x00]) = None \<and>
       port_read read_nack_port ([] @ [PortWrite (cmd_bytes (Some [0x03]) @ [0x00, 0x00])]) 4 = Inl ?e"
    by (simp add: read_nack_port_def)
  note c1 = port_failure_propagates [THEN conjunct1, rule_format, OF h1]
  note c2 = port_failure_propagates [THEN conjunct2, THEN conjunct1, rule_format, OF h2,
      of "[0x00, 0x20]" "[0x01]" "Some [0x02]"]
  note c3 = port_failure_propagates [THEN conjunct2, THEN conjunct2, THEN conjunct1, rule_format, OF h3]
  note c4 = port_failure_propagates [THEN conjunct2, THEN conjunct2, THEN conjunct2, THEN conjunct1,
      rule_format, OF h4, of 4]
  note c5 = port_failure_propagates [THEN conjunct2, THEN conjunct2, THEN conjunct2, THEN conjunct2,
      rule_format, OF h5]
  show ?thesis
    using c1 c2 c3 c4 c5 by (simp add: cmd_bytes_def we_events_def)
qed

end
